theory Spec2Isabelle
  imports Main "HOL-Library.Multiset"
begin

section \<open>Values and strings\<close>

text \<open>
  A Go \<open>string\<close> is a byte sequence: \<^typ>\<open>string\<close>. A value of type \<open>interface{}\<close> that
  the rule code stores or passes on (a validator argument, a default value, a custom
  check function) is an \<open>iface\<close>: nil, a bool, an int, a string, a \<open>[]string\<close>, or a
  function value, of which only a label and the types of its parameters and results
  are kept.
\<close>

datatype iface =
    INil
  | IBool bool
  | IInt int
  | IString string
  | IStrings "string list"
  | IFunc string "string list" "string list"

text \<open>A function value held in a typed field (a hook): only its label is kept.\<close>

datatype func = Func string

text \<open>
  \<open>strings.Trim(s, cutset)\<close> for a cutset of ASCII bytes (the source passes \<open>"|:"\<close> and
  \<open>":"\<close>): all leading and trailing bytes of the cutset are removed.
\<close>

definition Trim :: "string \<Rightarrow> string \<Rightarrow> string" where
  "Trim s cutset =
     rev (dropWhile (\<lambda>c. c \<in> set cutset) (rev (dropWhile (\<lambda>c. c \<in> set cutset) s)))"

text \<open>\<open>strings.ContainsRune(s, r)\<close> for an ASCII rune (the source passes \<open>':'\<close>).\<close>

definition ContainsRune :: "string \<Rightarrow> char \<Rightarrow> bool" where
  "ContainsRune s r = (r \<in> set s)"

text \<open>\<open>strings.Join(elems, sep)\<close>.\<close>

fun Join :: "string list \<Rightarrow> string \<Rightarrow> string" where
  "Join [] sep = []"
| "Join [x] sep = x"
| "Join (x # y # xs) sep = x @ sep @ Join (y # xs) sep"

section \<open>The rule\<close>

text \<open>
  The struct \<open>funcMeta\<close> is declared outside the files at hand; the source only builds
  one, by \<open>newFuncMeta(name, false, fv)\<close>. A meta is represented by the three
  arguments it was built from.
\<close>

datatype funcMeta = newFuncMeta string bool iface

text \<open>
  \<open>type Rule struct\<close>. A map field is \<open>None\<close> when nil; a function or pointer field is
  \<open>None\<close> when nil. The field \<open>fields\<close> is written \<open>fields'\<close> (the record package
  keeps the plain name for itself).
\<close>

record Rule =
  scene :: string
  fields' :: "string list"
  optional :: bool
  skipEmpty :: bool
  defValue :: iface
  message :: string
  messages :: "(string \<rightharpoonup> string) option"
  validator :: string
  arguments :: "iface list"
  beforeFunc :: "func option"
  filterFunc :: "func option"
  checkFuncMeta :: "funcMeta option"
  emptyChecker :: "func option"

text \<open>
  Rules live on the heap and are handled through pointers (\<open>*Rule\<close>). The heap is the
  list of the rules allocated so far, a pointer is an index into it, and an index
  outside the heap plays the part of the nil pointer: dereferencing it panics, which
  is the result \<open>None\<close>.
\<close>

type_synonym heap = "Rule list"

text \<open>What a method on \<open>*Rule\<close> returns: nothing, or a \<open>*Rule\<close>.\<close>

datatype ret = NoValue | RulePtr nat

section \<open>The engine\<close>

text \<open>
  \<open>type Validation struct\<close> is declared outside the files at hand. The record has the
  fields the source reads and writes: \<open>SkipOnEmpty\<close>, \<open>rules\<close> (of type \<open>Rules\<close>, that
  is \<open>[]*Rule\<close>) and \<open>trans\<close>, of which the source calls the method \<open>Message\<close> only,
  so the field holds that method. \<open>defValues\<close> is the store behind \<open>SetDefValue\<close>.
\<close>

record Validation =
  SkipOnEmpty :: bool
  rules :: "nat list"
  trans :: "string \<Rightarrow> string \<Rightarrow> iface list \<Rightarrow> string"
  defValues :: "string \<rightharpoonup> iface"

text \<open>The state the rule code works on: the engine and the heap of rules.\<close>

type_synonym state = "Validation \<times> heap"

text \<open>
  The functions the source calls and that are declared outside the files at hand are
  parameters of the model, collected in one record: \<open>strings.TrimSpace\<close> of the
  standard library, and the package's own \<open>stringSplit\<close>, \<open>parseArgString\<close>,
  \<open>ValidatorName\<close>, \<open>strings2Args\<close>, \<open>checkValidatorFunc\<close> (\<open>None\<close> when it panics) and
  the method \<open>FilterRule\<close> of the engine (\<open>None\<close> when it panics).
\<close>

record pkg =
  TrimSpace :: "string \<Rightarrow> string"
  stringSplit :: "string \<Rightarrow> string \<Rightarrow> string list"
  parseArgString :: "string \<Rightarrow> string list"
  ValidatorName :: "string \<Rightarrow> string"
  strings2Args :: "string list \<Rightarrow> iface list"
  checkValidatorFunc :: "string \<Rightarrow> iface \<Rightarrow> iface option"
  FilterRule :: "string \<Rightarrow> string \<Rightarrow> state \<Rightarrow> state option"

subsection \<open>Rule construction and configuration\<close>

text \<open>\<open>NewRule\<close>: the struct literal sets three fields, the others are zero.\<close>

definition NewRule :: "pkg \<Rightarrow> string \<Rightarrow> string \<Rightarrow> iface list \<Rightarrow> Rule" where
  "NewRule P fs vname args =
     \<lparr> scene = [], fields' = stringSplit P fs '','', optional = False, skipEmpty = False,
       defValue = INil, message = [], messages = None, validator = vname,
       arguments = args, beforeFunc = None, filterFunc = None, checkFuncMeta = None,
       emptyChecker = None \<rparr>"

text \<open>
  The setters. Each takes the receiver \<open>r\<close> and the heap and gives what the method
  returns together with the heap after the call, or \<open>None\<close> when it panics.
\<close>

definition SetScene :: "string \<Rightarrow> nat \<Rightarrow> heap \<Rightarrow> (ret \<times> heap) option" where
  "SetScene sc r h =
     (if r < length h then Some (RulePtr r, h[r := (h ! r)\<lparr>scene := sc\<rparr>]) else None)"

definition SetOptional :: "bool \<Rightarrow> nat \<Rightarrow> heap \<Rightarrow> (ret \<times> heap) option" where
  "SetOptional opt r h =
     (if r < length h then Some (NoValue, h[r := (h ! r)\<lparr>optional := opt\<rparr>]) else None)"

definition SetSkipEmpty :: "bool \<Rightarrow> nat \<Rightarrow> heap \<Rightarrow> (ret \<times> heap) option" where
  "SetSkipEmpty se r h =
     (if r < length h then Some (NoValue, h[r := (h ! r)\<lparr>skipEmpty := se\<rparr>]) else None)"

definition SetCheckFunc :: "pkg \<Rightarrow> iface \<Rightarrow> nat \<Rightarrow> heap \<Rightarrow> (ret \<times> heap) option" where
  "SetCheckFunc P checkFunc r h =
     (if r < length h then
        (let name = (if validator (h ! r) \<noteq> [] then ''rule_'' @ validator (h ! r)
                     else ''rule_'' @ Join (fields' (h ! r)) ''_'')
         in case checkValidatorFunc P name checkFunc of
              None \<Rightarrow> None
            | Some fv \<Rightarrow>
                Some (RulePtr r,
                      h[r := (h ! r)\<lparr>checkFuncMeta := Some (newFuncMeta name False fv)\<rparr>]))
      else None)"

definition SetFilterFunc :: "func option \<Rightarrow> nat \<Rightarrow> heap \<Rightarrow> (ret \<times> heap) option" where
  "SetFilterFunc fn r h =
     (if r < length h then Some (RulePtr r, h[r := (h ! r)\<lparr>filterFunc := fn\<rparr>]) else None)"

definition SetBeforeFunc :: "func option \<Rightarrow> nat \<Rightarrow> heap \<Rightarrow> (ret \<times> heap) option" where
  "SetBeforeFunc fn r h =
     (if r < length h then Some (NoValue, h[r := (h ! r)\<lparr>beforeFunc := fn\<rparr>]) else None)"

definition SetMessage :: "string \<Rightarrow> nat \<Rightarrow> heap \<Rightarrow> (ret \<times> heap) option" where
  "SetMessage errMsg r h =
     (if r < length h then Some (RulePtr r, h[r := (h ! r)\<lparr>message := errMsg\<rparr>]) else None)"

definition SetMessages ::
  "(string \<rightharpoonup> string) option \<Rightarrow> nat \<Rightarrow> heap \<Rightarrow> (ret \<times> heap) option" where
  "SetMessages msgMap r h =
     (if r < length h then Some (RulePtr r, h[r := (h ! r)\<lparr>messages := msgMap\<rparr>]) else None)"

text \<open>
  \<open>errorMessage\<close> reads the rule and the engine and changes nothing: \<open>r\<close> and \<open>v\<close> are
  the rule and the engine the two pointers point to. (A lookup in a nil map finds
  nothing, so the test \<open>r.messages != nil\<close> is the \<open>None\<close> branch.)
\<close>

definition errorMessage :: "Rule \<Rightarrow> string \<Rightarrow> string \<Rightarrow> Validation \<Rightarrow> string" where
  "errorMessage r field vname v =
     (let fKey = field @ ''.'' @ vname;
          found = (case messages r of
                     None \<Rightarrow> None
                   | Some ms \<Rightarrow> (case ms fKey of Some msg \<Rightarrow> Some msg | None \<Rightarrow> ms field))
      in case found of
           Some msg \<Rightarrow> msg
         | None \<Rightarrow> if message r \<noteq> [] then message r
                   else trans v vname field (arguments r))"

subsection \<open>Adding rules\<close>

text \<open>
  \<open>AddRule\<close> allocates the new rule at the next free address, sets its \<open>skipEmpty\<close>,
  appends the pointer and returns it.
\<close>

definition AddRule :: "pkg \<Rightarrow> string \<Rightarrow> string \<Rightarrow> iface list \<Rightarrow> state \<Rightarrow> nat \<times> state" where
  "AddRule P fs vname args s =
     (case s of (v, h) \<Rightarrow>
        (let rule = length h;
             h1 = h @ [NewRule P fs vname args];
             h2 = h1[rule := (h1 ! rule)\<lparr>skipEmpty := SkipOnEmpty v\<rparr>]
         in (rule, (v\<lparr>rules := rules v @ [rule]\<rparr>, h2))))"

text \<open>\<open>AppendRule\<close> writes through the pointer it is given: a nil pointer panics.\<close>

definition AppendRule :: "nat \<Rightarrow> state \<Rightarrow> (nat \<times> state) option" where
  "AppendRule rule s =
     (case s of (v, h) \<Rightarrow>
        if rule < length h then
          Some (rule, (v\<lparr>rules := rules v @ [rule]\<rparr>,
                       h[rule := (h ! rule)\<lparr>skipEmpty := SkipOnEmpty v\<rparr>]))
        else None)"

text \<open>
  Modelled from the spec: the method \<open>SetDefValue\<close> of the engine is missing from the
  files at hand. It "records a default value to inject into the data source for the
  field": the value is stored under the field's name, and nothing else changes.
\<close>

definition SetDefValue :: "string \<Rightarrow> iface \<Rightarrow> state \<Rightarrow> state" where
  "SetDefValue field val s =
     (case s of (v, h) \<Rightarrow> (v\<lparr>defValues := (defValues v)(field \<mapsto> val)\<rparr>, h))"

text \<open>
  The body of the loop of \<open>StringRule\<close>, for one element \<open>tok\<close> of \<open>rules\<close>. The result
  is \<open>None\<close> when \<open>list[1]\<close> is out of range (the index is evaluated before \<open>list[0]\<close>).
\<close>

definition StringRule_body :: "pkg \<Rightarrow> string \<Rightarrow> string \<Rightarrow> state \<Rightarrow> state option" where
  "StringRule_body P field tok s =
     (let vd = Trim tok '':'' in
      if vd = [] then Some s
      else if ContainsRune vd CHR '':'' then
        (let list = stringSplit P vd '':'' in
         if length list < 2 then None
         else
           (let args = parseArgString P (list ! 1);
                name = ValidatorName P (list ! 0)
            in if name = ''default'' then Some (SetDefValue field (IString (list ! 1)) s)
               else if name = ''regexp'' then
                 Some (snd (AddRule P field (list ! 0) [IString (list ! 1)] s))
               else if name = ''enum'' \<or> name = ''notIn'' then
                 Some (snd (AddRule P field (list ! 0) [IStrings args] s))
               else Some (snd (AddRule P field (list ! 0) (strings2Args P args) s))))
      else Some (snd (AddRule P field vd [] s)))"

fun StringRule_loop :: "pkg \<Rightarrow> string \<Rightarrow> string list \<Rightarrow> state \<Rightarrow> state option" where
  "StringRule_loop P field [] s = Some s"
| "StringRule_loop P field (tok # toks) s =
     (case StringRule_body P field tok s of
        None \<Rightarrow> None
      | Some s' \<Rightarrow> StringRule_loop P field toks s')"

text \<open>\<open>StringRule\<close>; \<open>filterRule\<close> is the variadic parameter.\<close>

definition StringRule :: "pkg \<Rightarrow> string \<Rightarrow> string \<Rightarrow> string list \<Rightarrow> state \<Rightarrow> state option" where
  "StringRule P field rule filterRule s =
     (let rule1 = TrimSpace P rule;
          toks = stringSplit P (Trim rule1 ''|:'') ''|''
      in case StringRule_loop P field toks s of
           None \<Rightarrow> None
         | Some s' \<Rightarrow>
             (if length filterRule > 0 then FilterRule P field (filterRule ! 0) s'
              else Some s'))"




subsection \<open>One instance of the outside functions\<close>

text \<open>
  The theorems below hold for every value of the parameters. Where a statement has to
  be evaluated at an input, the parameters are set to \<open>pkg0\<close>, whose functions are
  written after the way the source uses them.
\<close>

text \<open>The ASCII white space that \<open>strings.TrimSpace\<close> removes from both ends.\<close>

definition asciiSpace :: "char \<Rightarrow> bool" where
  "asciiSpace c = (c \<in> set [CHR 0x20, CHR 0x09, CHR 0x0A, CHR 0x0B, CHR 0x0C, CHR 0x0D])"

definition TrimSpace0 :: "string \<Rightarrow> string" where
  "TrimSpace0 s = rev (dropWhile asciiSpace (rev (dropWhile asciiSpace s)))"

text \<open>Cutting a string at every occurrence of one byte.\<close>

fun splitOn :: "char \<Rightarrow> string \<Rightarrow> string list" where
  "splitOn c [] = [[]]"
| "splitOn c (x # xs) =
     (if x = c then [] # splitOn c xs
      else (case splitOn c xs of [] \<Rightarrow> [[x]] | y # ys \<Rightarrow> (x # y) # ys))"

text \<open>
  Modelled from the spec: \<open>stringSplit\<close> is missing from the files at hand. The source
  calls it with the separators \<open>"|"\<close>, \<open>":"\<close> and \<open>","\<close>, and the spec has a rule string as
  a "\<open>|\<close>-separated sequence of validator tokens", the fields of a rule "comma-split,
  order preserved", tokens trimmed of white space and empty tokens skipped: the string
  is cut at every occurrence of the separator, each piece is trimmed, and the empty
  pieces are dropped. A separator that is not one byte long does not occur in the
  source; for it the string is returned as its only piece.
\<close>

definition stringSplit0 :: "string \<Rightarrow> string \<Rightarrow> string list" where
  "stringSplit0 s sep =
     (case sep of
        [c] \<Rightarrow> filter (\<lambda>p. p \<noteq> []) (map TrimSpace0 (splitOn c (TrimSpace0 s)))
      | _ \<Rightarrow> [s])"

text \<open>
  Modelled from the spec: \<open>checkValidatorFunc\<close> is missing from the files at hand. The
  spec has \<open>SetCheckFunc\<close> accept "any callable whose signature matches: first
  argument is the field's value, returns a boolean or (boolean, error)", "validated
  structurally (argument count and types) at registration time", failing fast
  otherwise. A value that passes is handed back, any other value panics.
\<close>

definition checkValidatorFunc0 :: "string \<Rightarrow> iface \<Rightarrow> iface option" where
  "checkValidatorFunc0 name fn =
     (case fn of
        IFunc l ins outs \<Rightarrow>
          (if ins \<noteq> [] \<and> (outs = [''bool''] \<or> outs = [''bool'', ''error''])
           then Some fn else None)
      | _ \<Rightarrow> None)"

text \<open>
  The other functions of \<open>pkg0\<close>: the arguments of a token are its comma-separated
  pieces, handed on as strings; no validator name has an alias; the filter rule
  leaves the state as it is.
\<close>

definition pkg0 :: pkg where
  "pkg0 =
     \<lparr> TrimSpace = TrimSpace0,
       stringSplit = stringSplit0,
       parseArgString = (\<lambda>a. stringSplit0 a '',''),
       ValidatorName = (\<lambda>n. n),
       strings2Args = map IString,
       checkValidatorFunc = checkValidatorFunc0,
       FilterRule = (\<lambda>field rule s. Some s) \<rparr>"

section \<open>Data sources\<close>

text \<open>
  The errors. \<open>ErrInvalidData\<close> and \<open>ErrEmptyData\<close> are the package's two error values;
  \<open>LibError\<close> is an error that a call into the standard library returned.
\<close>

datatype error = ErrInvalidData | ErrEmptyData | LibError string

subsection \<open>Struct data\<close>

text \<open>
  What \<open>FromStruct\<close> sees of its argument through \<open>reflect\<close>: a value is a struct of a
  named type, a value of some other type that is neither a struct nor a pointer, a
  nil pointer to a type, or a pointer to a value.
\<close>

datatype kind = Ptr | Struct | OtherKind

datatype gotype = StructType string | OtherType string | PtrType gotype

datatype goval = StructVal string | OtherVal string | NilPtr gotype | PtrTo goval

fun Type' :: "goval \<Rightarrow> gotype" where
  "Type' (StructVal n) = StructType n"
| "Type' (OtherVal n) = OtherType n"
| "Type' (NilPtr t) = PtrType t"
| "Type' (PtrTo w) = PtrType (Type' w)"

fun Kind :: "goval \<Rightarrow> kind" where
  "Kind (StructVal n) = Struct"
| "Kind (OtherVal n) = OtherKind"
| "Kind (NilPtr t) = Ptr"
| "Kind (PtrTo w) = Ptr"

fun IsNil :: "goval \<Rightarrow> bool" where
  "IsNil (NilPtr t) = True"
| "IsNil w = False"

text \<open>\<open>Elem\<close> is only called on a pointer that is not nil.\<close>

fun Elem :: "goval \<Rightarrow> goval" where
  "Elem (PtrTo w) = w"
| "Elem w = w"

text \<open>
  The package variable \<open>timeType\<close> is declared outside the files at hand: it is the
  \<open>reflect.Type\<close> of \<open>time.Time\<close>, which is a struct type.
\<close>

definition timeType :: gotype where
  "timeType = StructType ''time.Time''"

text \<open>The package variable \<open>globalOpt\<close>, of which \<open>FromStruct\<close> reads one field.\<close>

record GlobalOption =
  ValidateTag :: string

text \<open>
  \<open>StructData\<close>, with the fields that \<open>FromStruct\<close> sets. \<open>src\<close> is \<open>None\<close> when nil,
  \<open>value'\<close> (the field \<open>value\<close>) is \<open>None\<close> for the zero \<open>reflect.Value\<close>, and
  \<open>valueTpy\<close> is \<open>None\<close> for the nil \<open>reflect.Type\<close>.
\<close>

record StructData =
  ValidateTag :: string
  fieldNames :: "string \<rightharpoonup> int"
  fieldValues :: "string \<rightharpoonup> goval"
  src :: "goval option"
  value' :: "goval option"
  valueTpy :: "gotype option"

text \<open>
  \<open>FromStruct\<close> returns the data together with the error, \<open>None\<close> for the nil error.
  The argument \<open>s\<close> is \<open>None\<close> for the nil interface.
\<close>

definition FromStruct :: "GlobalOption \<Rightarrow> goval option \<Rightarrow> StructData \<times> error option" where
  "FromStruct globalOpt s =
     (let data = \<lparr> ValidateTag = GlobalOption.ValidateTag globalOpt,
                   fieldNames = Map.empty, fieldValues = Map.empty,
                   src = None, value' = None, valueTpy = None \<rparr>
      in case s of
           None \<Rightarrow> (data, Some ErrInvalidData)
         | Some x \<Rightarrow>
             (let val = (if Kind x = Ptr \<and> \<not> IsNil x then Elem x else x);
                  typ = Type' val
              in if Kind val \<noteq> Struct \<or> typ = timeType then (data, Some ErrInvalidData)
                 else (data\<lparr>src := Some x, value' := Some val, valueTpy := Some typ\<rparr>,
                       None)))"

subsection \<open>Map data\<close>

text \<open>
  \<open>MapData\<close>: \<open>Map'\<close> (the field \<open>Map\<close>) is \<open>None\<close> for the nil map, \<open>mvalue\<close> (the field
  \<open>value\<close>) is \<open>None\<close> for the zero \<open>reflect.Value\<close> and else the map it wraps, and
  \<open>bodyJSON\<close> is \<open>None\<close> for the nil slice. The values of the map are of any type \<open>'j\<close>.
\<close>

record 'j MapData =
  Map' :: "(string \<rightharpoonup> 'j) option"
  mvalue :: "(string \<rightharpoonup> 'j) option option"
  bodyJSON :: "string option"

definition FromMap :: "(string \<rightharpoonup> 'j) option \<Rightarrow> 'j MapData" where
  "FromMap m =
     (let data = \<lparr> Map' = None, mvalue = None, bodyJSON = None \<rparr>
      in if m \<noteq> None then data\<lparr>Map' := m, mvalue := Some m\<rparr> else data)"



subsection \<open>Requests\<close>

text \<open>
  \<open>url.Values\<close> and the file map of a multipart form are Go maps that the source
  ranges over: each is given by its entries in the order the loop visits them.
\<close>

type_synonym Values = "(string \<times> string list) list"

text \<open>
  \<open>*http.Request\<close>, with what the source reads of it. \<open>URL\<close> is \<open>None\<close> for the nil
  pointer and else the result of its method \<open>Query()\<close>; \<open>Header\<close> is the header map;
  \<open>Body\<close> is \<open>None\<close> for the nil reader and else what reading the body to its end
  gives, the bytes or an error.
\<close>

record Request =
  Method :: string
  URL :: "Values option"
  Header :: "string \<rightharpoonup> string list"
  Body :: "(error + string) option"



text \<open>
  What the source calls and the files at hand do not declare, as parameters: the form
  data of type \<open>'fd\<close> with \<open>newFormData\<close> and its methods \<open>Add\<close>, \<open>AddValues\<close> and
  \<open>AddFiles\<close>; \<open>defaultMaxMemory\<close>; of the standard library, the two parsers of the
  request, each giving its error or what it leaves in the request
  (\<open>MultipartForm.Value\<close> and \<open>MultipartForm.File\<close>, or \<open>PostForm\<close>), and
  \<open>json.Unmarshal\<close>.
\<close>

record ('fd, 'f, 'j) lib =
  newFormData :: "'fd"
  Add :: "string \<Rightarrow> string \<Rightarrow> 'fd \<Rightarrow> 'fd"
  AddValues :: "Values \<Rightarrow> 'fd \<Rightarrow> 'fd"
  AddFiles :: "(string \<times> 'f list) list \<Rightarrow> 'fd \<Rightarrow> 'fd"
  defaultMaxMemory :: int
  ParseMultipartForm :: "Request \<Rightarrow> int \<Rightarrow> error + (Values \<times> (string \<times> 'f list) list)"
  ParseForm :: "Request \<Rightarrow> error + Values"
  Unmarshal :: "string \<Rightarrow> error + (string \<rightharpoonup> 'j) option"

text \<open>\<open>FromURLValues\<close>: the two nested loops.\<close>

fun FromURLValues_vals :: "('fd, 'f, 'j) lib \<Rightarrow> string \<Rightarrow> string list \<Rightarrow> 'fd \<Rightarrow> 'fd" where
  "FromURLValues_vals L key [] data = data"
| "FromURLValues_vals L key (val # vals) data = FromURLValues_vals L key vals (Add L key val data)"

fun FromURLValues_loop :: "('fd, 'f, 'j) lib \<Rightarrow> Values \<Rightarrow> 'fd \<Rightarrow> 'fd" where
  "FromURLValues_loop L [] data = data"
| "FromURLValues_loop L ((key, vals) # values) data =
     FromURLValues_loop L values (FromURLValues_vals L key vals data)"

definition FromURLValues :: "('fd, 'f, 'j) lib \<Rightarrow> Values \<Rightarrow> 'fd" where
  "FromURLValues L values = FromURLValues_loop L values (newFormData L)"

definition FromQuery :: "('fd, 'f, 'j) lib \<Rightarrow> Values \<Rightarrow> 'fd" where
  "FromQuery L values = FromURLValues L values"



section \<open>Notions used by the properties\<close>

text \<open>The entry of the rule's message map under a key, if the map has one.\<close>

definition messagesEntry :: "Rule \<Rightarrow> string \<Rightarrow> string option" where
  "messagesEntry r k = (case messages r of None \<Rightarrow> None | Some ms \<Rightarrow> ms k)"


text \<open>The name under which \<open>SetCheckFunc\<close> registers the function of a rule.\<close>

definition checkFuncName :: "Rule \<Rightarrow> string" where
  "checkFuncName x =
     ''rule_'' @ (if validator x \<noteq> [] then validator x else Join (fields' x) ''_'')"

subsection \<open>Example values\<close>

text \<open>An engine with no rule yet, whose translator names the field and the validator.\<close>

definition v0 :: Validation where
  "v0 = \<lparr> SkipOnEmpty = True, rules = [],
          trans = (\<lambda>vname field args. field @ '' failed '' @ vname),
          defValues = Map.empty \<rparr>"

text \<open>A rule with a message and a message map, as \<open>SetMessage\<close> and \<open>SetMessages\<close> leave it.\<close>

definition rule0 :: Rule where
  "rule0 = (NewRule pkg0 ''name,age'' ''required'' [])
             \<lparr> message := ''one message'',
               messages := Some [''name.required'' \<mapsto> ''name is needed'',
                                 ''name'' \<mapsto> ''bad name''] \<rparr>"

text \<open>The package options, with the tag name the package reads from a struct.\<close>

definition G0 :: GlobalOption where
  "G0 = \<lparr> GlobalOption.ValidateTag = ''validate'' \<rparr>"




text \<open>
  A token on which the loop body of \<open>StringRule\<close> does not panic: if it has a \<open>:\<close> after
  trimming, \<open>stringSplit\<close> cuts it into at least two pieces, so that \<open>list[1]\<close> exists.
\<close>

definition tokenOk :: "pkg \<Rightarrow> string \<Rightarrow> bool" where
  "tokenOk P tok =
     (if ContainsRune (Trim tok '':'') CHR '':''
      then 2 \<le> length (stringSplit P (Trim tok '':'') '':'') else True)"

subsection \<open>What a call adds to a state\<close>

text \<open>
  The state of an engine that has no rule and no default yet, with the given
  \<open>SkipOnEmpty\<close>, on an empty heap.
\<close>

definition fresh :: "bool \<Rightarrow> state" where
  "fresh se = (\<lparr> SkipOnEmpty = se, rules = [], trans = (\<lambda>vname field args. []),
                defValues = Map.empty \<rparr>, [])"

text \<open>
  \<open>graft s t\<close> is the state \<open>s\<close> with what \<open>t\<close> holds put behind it: the heap of \<open>t\<close>
  follows the heap of \<open>s\<close>, the rules of \<open>t\<close>, moved by the size of the heap of \<open>s\<close>,
  follow the rules of \<open>s\<close>, and the defaults of \<open>t\<close> are written over those of \<open>s\<close>.
\<close>

definition graft :: "state \<Rightarrow> state \<Rightarrow> state" where
  "graft s t =
     (case s of (v, h) \<Rightarrow> case t of (w, rs) \<Rightarrow>
        (v\<lparr>rules := rules v @ map ((+) (length h)) (rules w),
           defValues := defValues v ++ defValues w\<rparr>, h @ rs))"

text \<open>A state whose engine lists the whole heap, in the order of the addresses.\<close>

definition dense :: "state \<Rightarrow> bool" where
  "dense s = (rules (fst s) = [0..<length (snd s)])"



section \<open>Properties\<close>

subsection \<open>The message of a failed rule\<close>

text \<open>
  C1. \<open>errorMessage\<close> resolves the message in strict order of precedence: the entry of
  the rule's message map under the key \<open>field.validator\<close> if there is one; otherwise the
  entry under the key \<open>field\<close> if there is one; otherwise the rule's \<open>message\<close> if it is
  not empty; otherwise what the engine's translator makes of the validator name, the
  field name and the rule's arguments.
\<close>

theorem errorMessage_precedence:
  "(messagesEntry r (field @ ''.'' @ vname) = Some m \<longrightarrow> errorMessage r field vname v = m) \<and>
   (messagesEntry r (field @ ''.'' @ vname) = None \<and> messagesEntry r field = Some m \<longrightarrow>
      errorMessage r field vname v = m) \<and>
   (messagesEntry r (field @ ''.'' @ vname) = None \<and> messagesEntry r field = None \<and>
    message r \<noteq> [] \<longrightarrow> errorMessage r field vname v = message r) \<and>
   (messagesEntry r (field @ ''.'' @ vname) = None \<and> messagesEntry r field = None \<and>
    message r = [] \<longrightarrow> errorMessage r field vname v = trans v vname field (arguments r))"
  by (simp add: errorMessage_def messagesEntry_def split: option.splits)

text \<open>The four cases at \<open>rule0\<close>, one field and validator for each.\<close>

theorem errorMessage_precedence_witness:
  "errorMessage rule0 ''name'' ''required'' v0 = ''name is needed'' \<and>
   errorMessage rule0 ''name'' ''minLen'' v0 = ''bad name'' \<and>
   errorMessage rule0 ''age'' ''required'' v0 = ''one message'' \<and>
   errorMessage (rule0\<lparr>message := []\<rparr>) ''age'' ''required'' v0 = ''age failed required''"
  using errorMessage_precedence [of rule0 "''name''" "''required''" "''name is needed''" v0]
    errorMessage_precedence [of rule0 "''name''" "''minLen''" "''bad name''" v0]
    errorMessage_precedence [of rule0 "''age''" "''required''" "''x''" v0]
    errorMessage_precedence [of "rule0\<lparr>message := []\<rparr>" "''age''" "''required''" "''x''" v0]
  by (simp add: messagesEntry_def rule0_def NewRule_def v0_def)

subsection \<open>The setters of a rule\<close>

text \<open>
  C6, as amended. On a rule that is not nil, each of the seven setters writes its own
  attribute of the rule in place and changes nothing else. \<open>SetMessage\<close>,
  \<open>SetMessages\<close>, \<open>SetFilterFunc\<close> and \<open>SetCheckFunc\<close> return the rule they were called
  on; \<open>SetOptional\<close>, \<open>SetSkipEmpty\<close> and \<open>SetBeforeFunc\<close> return nothing. The first
  six store the value they are given as it is; \<open>SetCheckFunc\<close> hands the function to
  \<open>checkValidatorFunc\<close> first and stores the meta built from what that returns, if it
  returns.
\<close>

theorem setters_effect:
  "r < length h \<Longrightarrow>
     SetOptional opt r h = Some (NoValue, h[r := (h ! r)\<lparr>optional := opt\<rparr>]) \<and>
     SetSkipEmpty se r h = Some (NoValue, h[r := (h ! r)\<lparr>skipEmpty := se\<rparr>]) \<and>
     SetBeforeFunc bf r h = Some (NoValue, h[r := (h ! r)\<lparr>beforeFunc := bf\<rparr>]) \<and>
     SetMessage errMsg r h = Some (RulePtr r, h[r := (h ! r)\<lparr>message := errMsg\<rparr>]) \<and>
     SetMessages msgMap r h = Some (RulePtr r, h[r := (h ! r)\<lparr>messages := msgMap\<rparr>]) \<and>
     SetFilterFunc ff r h = Some (RulePtr r, h[r := (h ! r)\<lparr>filterFunc := ff\<rparr>]) \<and>
     SetCheckFunc P checkFunc r h =
       (case checkValidatorFunc P (checkFuncName (h ! r)) checkFunc of
          None \<Rightarrow> None
        | Some fv \<Rightarrow>
            Some (RulePtr r,
                  h[r := (h ! r)\<lparr>checkFuncMeta :=
                                    Some (newFuncMeta (checkFuncName (h ! r)) False fv)\<rparr>]))"
proof -
  assume r: "r < length h"
  have name: "checkFuncName (h ! r) =
      (if validator (h ! r) \<noteq> [] then ''rule_'' @ validator (h ! r)
       else ''rule_'' @ Join (fields' (h ! r)) ''_'')"
    by (simp add: checkFuncName_def)
  have chk: "SetCheckFunc P checkFunc r h =
       (case checkValidatorFunc P (checkFuncName (h ! r)) checkFunc of
          None \<Rightarrow> None
        | Some fv \<Rightarrow>
            Some (RulePtr r,
                  h[r := (h ! r)\<lparr>checkFuncMeta :=
                                    Some (newFuncMeta (checkFuncName (h ! r)) False fv)\<rparr>]))"
    unfolding SetCheckFunc_def Let_def name using r by simp
  from r chk show ?thesis
    by (simp add: SetOptional_def SetSkipEmpty_def SetBeforeFunc_def SetMessage_def
        SetMessages_def SetFilterFunc_def)
qed

theorem setters_effect_witness:
  "(0::nat) < length [rule0] \<and>
   SetOptional True 0 [rule0] = Some (NoValue, [rule0\<lparr>optional := True\<rparr>]) \<and>
   SetMessage ''required!'' 0 [rule0] = Some (RulePtr 0, [rule0\<lparr>message := ''required!''\<rparr>]) \<and>
   SetCheckFunc pkg0 (IFunc ''isFour'' [''string''] [''bool'']) 0 [rule0] =
     Some (RulePtr 0,
           [rule0\<lparr>checkFuncMeta :=
                    Some (newFuncMeta ''rule_required'' False
                            (IFunc ''isFour'' [''string''] [''bool'']))\<rparr>])"
  using setters_effect
      [where r = 0 and h = "[rule0]" and opt = True and errMsg = "''required!''" and P = pkg0
         and checkFunc = "IFunc ''isFour'' [''string''] [''bool'']"]
  by (simp add: checkFuncName_def rule0_def NewRule_def pkg0_def checkValidatorFunc0_def)

text \<open>
  C6 as stated fails: on the heap that holds \<open>rule0\<close> at address 0, three of the
  setters return no value, so no call can be chained on them, and \<open>SetCheckFunc\<close> with
  a value that is not a function stores nothing and panics in \<open>checkValidatorFunc\<close>.
\<close>

theorem setters_chain_counterexample:
  "map_option fst (SetOptional True 0 [rule0]) = Some NoValue \<and>
   map_option fst (SetSkipEmpty True 0 [rule0]) = Some NoValue \<and>
   map_option fst (SetBeforeFunc (Some (Func ''before'')) 0 [rule0]) = Some NoValue \<and>
   NoValue \<noteq> RulePtr 0 \<and>
   SetCheckFunc pkg0 (IString ''not a function'') 0 [rule0] = None"
  by (simp add: SetOptional_def SetSkipEmpty_def SetBeforeFunc_def SetCheckFunc_def
      pkg0_def checkValidatorFunc0_def)

subsection \<open>The skip-on-empty policy\<close>

text \<open>
  C7. A rule added by \<open>AddRule\<close> or by \<open>AppendRule\<close> has its \<open>skipEmpty\<close> set to the
  engine's \<open>SkipOnEmpty\<close> as it is when the rule is added. \<open>AddRule\<close> puts the new rule
  at the next free address and appends that address to the engine's rules;
  \<open>AppendRule\<close>, on a rule that is not nil, writes the flag through the pointer,
  leaves the rule's other attributes alone and appends the pointer.
\<close>

theorem AddRule_AppendRule_skipEmpty:
  "(case AddRule P fs vname args (v, h) of
      (p, (v', h')) \<Rightarrow>
        p = length h \<and> rules v' = rules v @ [p] \<and>
        h' = h @ [(NewRule P fs vname args)\<lparr>skipEmpty := SkipOnEmpty v\<rparr>] \<and>
        skipEmpty (h' ! p) = SkipOnEmpty v \<and> SkipOnEmpty v' = SkipOnEmpty v) \<and>
   (rule < length h \<longrightarrow>
      (case AppendRule rule (v, h) of
         None \<Rightarrow> False
       | Some (p, (v', h')) \<Rightarrow>
           p = rule \<and> rules v' = rules v @ [rule] \<and>
           h' = h[rule := (h ! rule)\<lparr>skipEmpty := SkipOnEmpty v\<rparr>] \<and>
           skipEmpty (h' ! rule) = SkipOnEmpty v \<and> SkipOnEmpty v' = SkipOnEmpty v))"
  by (simp add: AddRule_def AppendRule_def Let_def)

theorem AddRule_AppendRule_skipEmpty_witness:
  "(0::nat) < length [rule0] \<and>
   skipEmpty rule0 = False \<and> SkipOnEmpty v0 = True \<and>
   map_option (\<lambda>(p, (v', h')). (p, rules v', map skipEmpty h')) (AppendRule 0 (v0, [rule0]))
     = Some (0, [0], [True]) \<and>
   (case AddRule pkg0 ''name'' ''required'' [] (v0, [rule0]) of
      (p, (v', h')) \<Rightarrow> (p, rules v', map skipEmpty h')) = (1, [1], [False, True])"
  using AddRule_AppendRule_skipEmpty
      [where P = pkg0 and fs = "''name''" and vname = "''required''" and args = "[]"
         and v = v0 and h = "[rule0]" and rule = 0]
  by (auto simp: rule0_def NewRule_def v0_def split: option.splits prod.splits)

subsection \<open>Data from a struct and from JSON\<close>




text \<open>
  C9. For a value of the type \<open>time.Time\<close>, which is a struct type, and for a pointer to
  such a value, \<open>FromStruct\<close> returns the invalid-data error, and the data it returns
  hold no source.
\<close>

theorem FromStruct_timeType:
  "Type' x = timeType \<Longrightarrow>
     Kind x = Struct \<and>
     snd (FromStruct G (Some x)) = Some ErrInvalidData \<and>
     snd (FromStruct G (Some (PtrTo x))) = Some ErrInvalidData \<and>
     src (fst (FromStruct G (Some x))) = None \<and>
     src (fst (FromStruct G (Some (PtrTo x)))) = None"
  by (cases x) (simp_all add: FromStruct_def timeType_def Let_def)

theorem FromStruct_timeType_witness:
  "Type' (StructVal ''time.Time'') = timeType \<and>
   Kind (StructVal ''time.Time'') = Struct \<and>
   snd (FromStruct G0 (Some (StructVal ''time.Time''))) = Some ErrInvalidData \<and>
   snd (FromStruct G0 (Some (PtrTo (StructVal ''time.Time'')))) = Some ErrInvalidData"
  using FromStruct_timeType [where x = "StructVal ''time.Time''" and G = G0]
  by (simp add: timeType_def)

subsection \<open>Data from a request\<close>



subsection \<open>Rules from strings\<close>

text \<open>
  The loop body, the loop, \<open>StringRule\<close> and \<open>StringRules\<close> read of the state they
  start in nothing but \<open>SkipOnEmpty\<close>: what a call does in any state is what it does in
  the fresh state, grafted onto the state.
\<close>

lemma graft_fresh: "graft (v, h) (fresh (SkipOnEmpty v)) = (v, h)"
  by (simp add: graft_def fresh_def)

lemma graft_assoc: "graft (graft s t) u = graft s (graft t u)"
  by (cases s; cases t; cases u) (simp add: graft_def add.assoc comp_def)

lemma graft_SkipOnEmpty: "SkipOnEmpty (fst (graft s t)) = SkipOnEmpty (fst s)"
  by (cases s; cases t) (simp add: graft_def)

lemma graft_snd: "snd (graft s t) = snd s @ snd t"
  by (cases s; cases t) (simp add: graft_def)

lemma map_plus_upt: "map ((+) n) [0..<m] = [n..<n + m]"
  by (induction m) simp_all

lemma graft_rules:
  "dense t \<Longrightarrow>
     rules (fst (graft s t)) =
       rules (fst s) @ [length (snd s)..<length (snd s) + length (snd t)]"
  by (cases s; cases t) (simp add: graft_def dense_def map_plus_upt)

lemma dense_fresh: "dense (fresh se)"
  by (simp add: dense_def fresh_def)

lemma dense_graft: "dense s \<Longrightarrow> dense t \<Longrightarrow> dense (graft s t)"
  using graft_rules [of t s] by (simp add: dense_def graft_snd upt_add_eq_append [symmetric])

lemma graft_AddRule:
  "snd (AddRule P fs vname args (v, h)) =
     graft (v, h) (snd (AddRule P fs vname args (fresh (SkipOnEmpty v))))"
  by (simp add: AddRule_def graft_def fresh_def Let_def)

lemma graft_SetDefValue:
  "SetDefValue field val (v, h) = graft (v, h) (SetDefValue field val (fresh (SkipOnEmpty v)))"
  by (simp add: SetDefValue_def graft_def fresh_def)

lemma body_graft:
  "StringRule_body P f tok (v, h) =
     map_option (graft (v, h)) (StringRule_body P f tok (fresh (SkipOnEmpty v)))"
  unfolding StringRule_body_def Let_def
  using graft_AddRule [of P f _ _ v h] graft_SetDefValue [of f _ v h]
  by (simp add: graft_fresh)

lemma body_dense:
  "StringRule_body P f tok (fresh se) = Some t \<Longrightarrow> dense t"
  by (auto simp: StringRule_body_def Let_def AddRule_def SetDefValue_def fresh_def dense_def
      split: if_splits)

lemma loop_graft:
  "StringRule_loop P f toks (v, h) =
     map_option (graft (v, h)) (StringRule_loop P f toks (fresh (SkipOnEmpty v)))"
proof (induction toks arbitrary: v h)
  case Nil
  show ?case by (simp add: graft_fresh)
next
  case (Cons tok toks)
  show ?case
  proof (cases "StringRule_body P f tok (fresh (SkipOnEmpty v))")
    case None
    then show ?thesis using body_graft [of P f tok v h] by simp
  next
    case (Some t)
    obtain w rs where t: "t = (w, rs)" by (cases t)
    obtain v1 h1 where g: "graft (v, h) t = (v1, h1)" by (cases "graft (v, h) t")
    have se1: "SkipOnEmpty v1 = SkipOnEmpty v"
      using graft_SkipOnEmpty [of "(v, h)" t] g by simp
    have sew: "SkipOnEmpty w = SkipOnEmpty v"
      using body_graft [of P f tok "fst (fresh (SkipOnEmpty v))" "snd (fresh (SkipOnEmpty v))"]
        Some t graft_SkipOnEmpty [of "fresh (SkipOnEmpty v)" "(w, rs)"]
      by (auto simp: fresh_def)
    have l: "StringRule_loop P f (tok # toks) (v, h) = StringRule_loop P f toks (v1, h1)"
      using body_graft [of P f tok v h] Some g by simp
    have r: "StringRule_loop P f (tok # toks) (fresh (SkipOnEmpty v)) =
        StringRule_loop P f toks (w, rs)"
      using Some t by simp
    show ?thesis
      unfolding l r Cons.IH [of v1 h1] Cons.IH [of w rs] se1 sew
      using g t by (simp add: option.map_comp comp_def graft_assoc [symmetric])
  qed
qed

lemma loop_dense:
  "StringRule_loop P f toks (fresh se) = Some t \<Longrightarrow> dense t"
proof (induction toks arbitrary: t)
  case Nil
  then show ?case by (auto simp: dense_fresh)
next
  case (Cons tok toks)
  then obtain u where u: "StringRule_body P f tok (fresh se) = Some u"
    and l: "StringRule_loop P f toks u = Some t"
    by (auto split: option.splits)
  obtain w rs where w: "u = (w, rs)" by (cases u)
  have sew: "SkipOnEmpty w = se"
    using body_graft [of P f tok "fst (fresh se)" "snd (fresh se)"] u w
      graft_SkipOnEmpty [of "fresh se" "(w, rs)"]
    by (auto simp: fresh_def)
  from l w sew obtain t' where t': "StringRule_loop P f toks (fresh se) = Some t'"
    and t: "t = graft u t'"
    using loop_graft [of P f toks w rs] by auto
  show ?case using t body_dense [OF u] Cons.IH [OF t'] by (simp add: dense_graft)
qed

lemma loop_append:
  "StringRule_loop P f (xs @ ys) s =
     (case StringRule_loop P f xs s of None \<Rightarrow> None | Some s1 \<Rightarrow> StringRule_loop P f ys s1)"
  by (induction xs arbitrary: s) (auto split: option.splits)

lemma StringRule_nofilter:
  "StringRule P f r [] s =
     StringRule_loop P f (stringSplit P (Trim (TrimSpace P r) ''|:'') ''|'') s"
  by (simp add: StringRule_def Let_def split: option.splits)











lemma loop_split:
  assumes "StringRule_loop P f (xs @ tok # ys) (v, h) = Some s'"
  shows "\<exists>tx tb ty.
           StringRule_loop P f xs (fresh (SkipOnEmpty v)) = Some tx \<and>
           StringRule_body P f tok (fresh (SkipOnEmpty v)) = Some tb \<and>
           StringRule_loop P f ys (fresh (SkipOnEmpty v)) = Some ty \<and>
           dense tx \<and> dense tb \<and> dense ty \<and>
           s' = graft (graft (graft (v, h) tx) tb) ty"
proof -
  let ?se = "SkipOnEmpty v"
  from assms obtain s1 s2 where
    x: "StringRule_loop P f xs (v, h) = Some s1" and
    b: "StringRule_body P f tok s1 = Some s2" and
    y: "StringRule_loop P f ys s2 = Some s'"
    by (auto simp: loop_append split: option.splits)
  from x obtain tx where tx: "StringRule_loop P f xs (fresh ?se) = Some tx"
    and s1: "s1 = graft (v, h) tx"
    using loop_graft [of P f xs v h] by auto
  have se1: "SkipOnEmpty (fst s1) = ?se"
    using s1 graft_SkipOnEmpty [of "(v, h)" tx] by simp
  have b': "StringRule_body P f tok s1 =
      map_option (graft s1) (StringRule_body P f tok (fresh ?se))"
    using body_graft [of P f tok "fst s1" "snd s1"] unfolding se1 by simp
  from b obtain tb where tb: "StringRule_body P f tok (fresh ?se) = Some tb"
    and s2: "s2 = graft s1 tb"
    unfolding b' by auto
  have se2: "SkipOnEmpty (fst s2) = ?se"
    using s2 se1 graft_SkipOnEmpty [of s1 tb] by simp
  have y': "StringRule_loop P f ys s2 =
      map_option (graft s2) (StringRule_loop P f ys (fresh ?se))"
    using loop_graft [of P f ys "fst s2" "snd s2"] unfolding se2 by simp
  from y obtain ty where ty: "StringRule_loop P f ys (fresh ?se) = Some ty"
    and s': "s' = graft s2 ty"
    unfolding y' by auto
  show ?thesis
    using tx tb ty s1 s2 s' loop_dense [OF tx] body_dense [OF tb] loop_dense [OF ty]
    by blast
qed

lemma graft3_heap:
  "snd (graft (graft (graft (v, h) tx) tb) ty) = h @ snd tx @ snd tb @ snd ty"
  by (simp add: graft_snd)

lemma graft3_rules:
  assumes "dense tx" "dense tb" "dense ty"
  shows "rules (fst (graft (graft (graft (v, h) tx) tb) ty)) =
           rules v @ [length h..<length (h @ snd tx @ snd tb @ snd ty)]"
proof -
  have "dense (graft (graft tx tb) ty)"
    using assms by (simp add: dense_graft)
  then show ?thesis
    using graft_rules [of "graft (graft tx tb) ty" "(v, h)"]
    by (simp add: graft_assoc graft_snd)
qed

text \<open>When the loop and \<open>StringRule\<close> return: when no token makes the body panic.\<close>

lemma body_None: "StringRule_body P f tok s = None \<longleftrightarrow> \<not> tokenOk P tok"
  by (auto simp: StringRule_body_def tokenOk_def Let_def ContainsRune_def)

lemma loop_None:
  "StringRule_loop P f toks s = None \<longleftrightarrow> \<not> list_all (tokenOk P) toks"
proof (induction toks arbitrary: s)
  case Nil
  show ?case by simp
next
  case (Cons tok toks)
  show ?case
  proof (cases "StringRule_body P f tok s")
    case None
    then show ?thesis using body_None [of P f tok s] by simp
  next
    case (Some s1)
    then have "tokenOk P tok" using body_None [of P f tok s] by auto
    then show ?thesis using Some Cons.IH [of s1] by simp
  qed
qed

lemma StringRule_returns:
  "StringRule P f r [] s \<noteq> None \<longleftrightarrow>
     list_all (tokenOk P) (stringSplit P (Trim (TrimSpace P r) ''|:'') ''|'')"
  unfolding StringRule_nofilter using loop_None [of P f _ s] by simp

text \<open>Evaluating the functions of \<open>pkg0\<close> and the rule code at an input.\<close>

lemmas eval0 = StringRule_def pkg0_def stringSplit0_def TrimSpace0_def asciiSpace_def Trim_def
  StringRule_body_def ContainsRune_def AddRule_def Let_def NewRule_def v0_def SetDefValue_def
  fresh_def



text \<open>
  C4 fails on an argument that holds a \<open>:\<close>. The argument that is passed is \<open>list[1]\<close>,
  the second of the pieces into which \<open>stringSplit\<close> cuts the token at \<open>:\<close>. With a
  \<open>stringSplit\<close> that cuts at every separator, as the rule string is cut at every \<open>|\<close>,
  the pattern below loses everything from its own \<open>:\<close> on, while its comma is kept.
\<close>

theorem StringRule_regexp_colon:
  "StringRule pkg0 ''code'' ''regexp:^[0-9]{1,2}:[0-9]{2}$'' [] (v0, []) =
     Some (v0\<lparr>rules := [0]\<rparr>,
           [(NewRule pkg0 ''code'' ''regexp'' [IString ''^[0-9]{1,2}''])\<lparr>skipEmpty := True\<rparr>])"
  by (simp add: eval0)

text \<open>
  What does hold of a \<open>regexp\<close> token, for every \<open>stringSplit\<close>: it produces exactly one
  rule, whose one argument is the string \<open>list[1]\<close>, not cut at its commas.
\<close>

lemma StringRule_regexp_argument:
  assumes toks: "stringSplit P (Trim (TrimSpace P rule) ''|:'') ''|'' = xs @ tok # ys"
    and ok: "list_all (tokenOk P) (xs @ tok # ys)"
    and colon: "ContainsRune (Trim tok '':'') CHR '':''"
    and list: "list = stringSplit P (Trim tok '':'') '':''"
    and name: "ValidatorName P (list ! 0) = ''regexp''"
  shows "\<exists>v' h' hx hy.
           StringRule P field rule [] (v, h) = Some (v', h') \<and>
           map_option snd (StringRule_loop P field xs (fresh (SkipOnEmpty v))) = Some hx \<and>
           map_option snd (StringRule_loop P field ys (fresh (SkipOnEmpty v))) = Some hy \<and>
           h' = h @ hx @
                  [(NewRule P field (list ! 0) [IString (list ! 1)])
                     \<lparr>skipEmpty := SkipOnEmpty v\<rparr>] @ hy \<and>
           rules v' = rules v @ [length h..<length h']"
proof -
  let ?se = "SkipOnEmpty v"
  from ok toks obtain v' h' where call: "StringRule P field rule [] (v, h) = Some (v', h')"
    using StringRule_returns [of P field rule "(v, h)"] by auto
  from call toks have "StringRule_loop P field (xs @ tok # ys) (v, h) = Some (v', h')"
    by (simp add: StringRule_nofilter)
  from loop_split [OF this] obtain tx tb ty where
    tx: "StringRule_loop P field xs (fresh ?se) = Some tx" and
    tb: "StringRule_body P field tok (fresh ?se) = Some tb" and
    ty: "StringRule_loop P field ys (fresh ?se) = Some ty" and
    d: "dense tx" "dense tb" "dense ty" and
    s': "(v', h') = graft (graft (graft (v, h) tx) tb) ty"
    by blast
  have ne: "Trim tok '':'' \<noteq> []"
    using colon by (auto simp: ContainsRune_def)
  have len: "\<not> length list < 2"
    using ok colon list by (simp add: tokenOk_def)
  have "snd tb = [(NewRule P field (list ! 0) [IString (list ! 1)])
                     \<lparr>skipEmpty := ?se\<rparr>]"
    using tb colon ne list len name
    by (auto simp: StringRule_body_def Let_def AddRule_def fresh_def)
  moreover have "h' = h @ snd tx @ snd tb @ snd ty"
    using s' graft3_heap [of v h tx tb ty] by (metis snd_conv)
  moreover have "rules v' = rules v @ [length h..<length (h @ snd tx @ snd tb @ snd ty)]"
    using s' graft3_rules [OF d, of v h] by (metis fst_conv)
  ultimately show ?thesis using call tx ty by simp
qed






end
